theory Spec2Isabelle
  imports Complex_Main
begin

section \<open>The mode-driven real-time simulator (physics_engine.py, class RealTimeSimulator)\<close>

text \<open>
  Python floats are modelled as HOL reals: rounding, infinities and NaN are not
  modelled. Every call of the random generator is an explicit input of the tick (record
  \<open>draws\<close>), and the wall clock read by \<open>get_current_data\<close> is an explicit argument.
  An exception raised by the Python code is a value \<open>Inl e\<close>; the state a raising
  method leaves half-updated is not kept.
\<close>

subsection \<open>Data\<close>

datatype error = KeyError | ZeroDivisionError | TypeError

text \<open>One entry of the class constant \<open>MODE_PARAMS\<close>.\<close>

record mode_params =
  vitesse_max :: real
  vitesse_moyenne :: real
  acceleration_max :: real
  variation_vitesse :: real
  conso_base :: real
  temps_factor :: real
  regeneration :: real

definition MODE_URBAIN :: string where "MODE_URBAIN = ''urbain''"
definition MODE_SPORT :: string where "MODE_SPORT = ''sport''"
definition MODE_AUTOROUTE :: string where "MODE_AUTOROUTE = ''autoroute''"
definition MODE_ECO :: string where "MODE_ECO = ''eco''"

definition MODE_PARAMS :: "string \<rightharpoonup> mode_params" where
  "MODE_PARAMS = map_of
    [(MODE_URBAIN, \<lparr>vitesse_max = 50, vitesse_moyenne = 30, acceleration_max = 2.0,
        variation_vitesse = 15, conso_base = 16, temps_factor = 1.0, regeneration = 0.4\<rparr>),
     (MODE_SPORT, \<lparr>vitesse_max = 150, vitesse_moyenne = 90, acceleration_max = 4.0,
        variation_vitesse = 25, conso_base = 25, temps_factor = 1.5, regeneration = 0.2\<rparr>),
     (MODE_AUTOROUTE, \<lparr>vitesse_max = 130, vitesse_moyenne = 110, acceleration_max = 1.5,
        variation_vitesse = 10, conso_base = 21, temps_factor = 1.2, regeneration = 0.1\<rparr>),
     (MODE_ECO, \<lparr>vitesse_max = 90, vitesse_moyenne = 60, acceleration_max = 1.0,
        variation_vitesse = 5, conso_base = 13, temps_factor = 0.8, regeneration = 0.5\<rparr>)]"

text \<open>The dictionary \<open>self.vehicle_data\<close>.\<close>

record vehicle_data =
  speed :: real
  acceleration :: real
  temperature :: real
  battery_level :: real
  battery_capacity :: real
  motor_load :: real
  road_grade :: real
  tire_pressure :: real
  vehicle_weight :: real
  wind_speed :: real
  road_condition :: real
  total_distance :: real
  energy_consumption :: real
  instant_consumption :: real
  simulation_mode :: string
  autonomy_remaining :: real

text \<open>
  An entry of the list \<open>events\<close>. Its third key, \<open>description\<close>, is only written to
  the log and is left out.
\<close>

record event =
  name :: string
  duration :: int

text \<open>
  The attributes of a \<open>RealTimeSimulator\<close> that the tick reads or writes. The thread
  handle and the callback list are left out.
\<close>

record simulator =
  is_running :: bool
  vdata :: vehicle_data
  update_interval :: real
  current_mode :: string
  event_probability :: real
  current_event :: "event option"
  event_duration :: int

text \<open>
  What the random generator returns at each call site of one tick, when the call is
  reached: \<open>ev_random\<close> is \<open>np.random.random()\<close> of line 469, \<open>ev_choice\<close> the index
  picked by \<open>np.random.choice(events)\<close>, \<open>wind_draw\<close> is \<open>uniform(8, 15)\<close>,
  \<open>grade_draw\<close> is \<open>uniform(3, 8)\<close>, \<open>wind_reset\<close> and \<open>grade_reset\<close> are the two
  \<open>uniform(-2, 2)\<close>, \<open>noise\<close> is \<open>np.random.normal(0, variation_vitesse/10)\<close>,
  \<open>tire_random1\<close> and \<open>tire_random2\<close> are the two \<open>np.random.random()\<close> of lines 459
  and 462, \<open>tire_uniform\<close> is \<open>uniform(0, 0.05)\<close>.
\<close>

record draws =
  ev_random :: real
  ev_choice :: nat
  wind_draw :: real
  grade_draw :: real
  wind_reset :: real
  grade_reset :: real
  noise :: real
  tire_random1 :: real
  tire_random2 :: real
  tire_uniform :: real

text \<open>The ranges numpy documents for the uniform draws (half-open intervals).\<close>

definition draws_ok :: "draws \<Rightarrow> bool" where
  "draws_ok r \<longleftrightarrow>
     0 \<le> ev_random r \<and> ev_random r < 1 \<and>
     8 \<le> wind_draw r \<and> wind_draw r < 15 \<and>
     3 \<le> grade_draw r \<and> grade_draw r < 8 \<and>
     -2 \<le> wind_reset r \<and> wind_reset r < 2 \<and>
     -2 \<le> grade_reset r \<and> grade_reset r < 2 \<and>
     0 \<le> tire_random1 r \<and> tire_random1 r < 1 \<and>
     0 \<le> tire_random2 r \<and> tire_random2 r < 1 \<and>
     0 \<le> tire_uniform r \<and> tire_uniform r < 0.05"

subsection \<open>Construction and lifecycle commands\<close>

text \<open>\<open>__init__\<close>.\<close>

definition init :: simulator where
  "init = \<lparr>is_running = False,
     vdata = \<lparr>speed = 0, acceleration = 0, temperature = 25, battery_level = 100,
       battery_capacity = 60, motor_load = 0, road_grade = 0, tire_pressure = 2.4,
       vehicle_weight = 1800, wind_speed = 0, road_condition = 0, total_distance = 0,
       energy_consumption = 0, instant_consumption = 0, simulation_mode = MODE_URBAIN,
       autonomy_remaining = 390\<rparr>,
     update_interval = 0.2,
     current_mode = MODE_URBAIN,
     event_probability = 0.01,
     current_event = None,
     event_duration = 0\<rparr>"

text \<open>
  \<open>start(mode=None)\<close>. The test \<open>mode and mode in self.MODE_PARAMS\<close> fails for
  \<open>None\<close>, for the empty string and for a string that is no key. Starting the thread
  is the flag \<open>is_running\<close>.
\<close>

definition start :: "string option \<Rightarrow> simulator \<Rightarrow> simulator" where
  "start mode s =
     (let s1 = (case mode of
                  None \<Rightarrow> s
                | Some m \<Rightarrow>
                    if m \<noteq> [] \<and> MODE_PARAMS m \<noteq> None
                    then s\<lparr>current_mode := m, vdata := (vdata s)\<lparr>simulation_mode := m\<rparr>\<rparr>
                    else s)
      in if is_running s1 then s1 else s1\<lparr>is_running := True\<rparr>)"

definition stop :: "simulator \<Rightarrow> simulator" where
  "stop s = s\<lparr>is_running := False\<rparr>"

text \<open>\<open>change_mode(new_mode)\<close>: the returned flag and the simulator after the call.\<close>

definition change_mode :: "string \<Rightarrow> simulator \<Rightarrow> bool \<times> simulator" where
  "change_mode new_mode s =
     (if MODE_PARAMS new_mode \<noteq> None
      then (True, s\<lparr>current_mode := new_mode, vdata := (vdata s)\<lparr>simulation_mode := new_mode\<rparr>\<rparr>)
      else (False, s))"

subsection \<open>Random events\<close>

text \<open>The list \<open>events\<close> built by \<open>_handle_random_events\<close> for the current mode.\<close>

definition events :: "string \<Rightarrow> event list" where
  "events mode =
     [\<lparr>name = ''trafic_dense'', duration = 50\<rparr>,
      \<lparr>name = ''route_degagee'', duration = 40\<rparr>,
      \<lparr>name = ''pluie'', duration = 60\<rparr>,
      \<lparr>name = ''vent_lateral'', duration = 30\<rparr>,
      \<lparr>name = ''montee'', duration = 25\<rparr>] @
     (if mode = MODE_URBAIN then
        [\<lparr>name = ''trafic_dense'', duration = 50\<rparr>,
         \<lparr>name = ''feu_rouge'', duration = 15\<rparr>]
      else if mode = MODE_AUTOROUTE then
        [\<lparr>name = ''peage'', duration = 10\<rparr>,
         \<lparr>name = ''route_degagee'', duration = 70\<rparr>]
      else [])"

text \<open>
  \<open>_handle_random_events\<close>. The generator is asked for \<open>ev_random\<close> only when no event
  is active (\<open>and\<close> evaluates its right operand only then). \<open>np.random.choice\<close> returns
  the entry at an index below the length of the list; \<open>ev_choice\<close> is that index.
\<close>

definition handle_random_events :: "draws \<Rightarrow> simulator \<Rightarrow> simulator" where
  "handle_random_events r s =
     (if current_event s = None \<and> ev_random r < event_probability s then
        (let ev = events (current_mode s) ! ev_choice r
         in s\<lparr>current_event := Some ev, event_duration := duration ev\<rparr>)
      else s)"

text \<open>
  \<open>_apply_event_effects\<close>, lines 495 to 526: the effect of the active event on the
  vehicle data.
\<close>

definition event_effect :: "draws \<Rightarrow> string \<Rightarrow> string \<Rightarrow> vehicle_data \<Rightarrow> error + vehicle_data" where
  "event_effect r mode ev vd =
     (if ev = ''trafic_dense'' then
        Inr (vd\<lparr>speed := max 0 (speed vd * 0.95)\<rparr>)
      else if ev = ''route_degagee'' then
        (case MODE_PARAMS mode of
           None \<Rightarrow> Inl KeyError
         | Some mp \<Rightarrow> Inr (vd\<lparr>speed := min (vitesse_max mp) (speed vd * 1.05)\<rparr>))
      else if ev = ''pluie'' then
        Inr (vd\<lparr>road_condition := 1.0, energy_consumption := energy_consumption vd * 1.1\<rparr>)
      else if ev = ''vent_lateral'' then
        Inr (vd\<lparr>wind_speed := wind_draw r\<rparr>)
      else if ev = ''montee'' then
        Inr (vd\<lparr>road_grade := grade_draw r\<rparr>)
      else if ev = ''feu_rouge'' then
        Inr (vd\<lparr>speed := max 0 (speed vd - 5)\<rparr>)
      else if ev = ''peage'' then
        Inr (vd\<lparr>speed := max 0 (speed vd - 10)\<rparr>)
      else Inr vd)"

text \<open>Lines 535 to 541: the fields reset when the event ends.\<close>

definition event_reset :: "draws \<Rightarrow> string \<Rightarrow> vehicle_data \<Rightarrow> vehicle_data" where
  "event_reset r ev vd =
     (if ev = ''pluie'' then vd\<lparr>road_condition := 0\<rparr>
      else if ev = ''vent_lateral'' then vd\<lparr>wind_speed := wind_reset r\<rparr>
      else if ev = ''montee'' then vd\<lparr>road_grade := grade_reset r\<rparr>
      else vd)"

text \<open>
  \<open>_apply_event_effects\<close>. Subscripting \<open>self.current_event\<close> when it is \<open>None\<close>
  raises \<open>TypeError\<close>.
\<close>

definition apply_event_effects :: "draws \<Rightarrow> simulator \<Rightarrow> error + simulator" where
  "apply_event_effects r s =
     (case current_event s of
        None \<Rightarrow> Inl TypeError
      | Some e \<Rightarrow>
          (case event_effect r (current_mode s) (name e) (vdata s) of
             Inl err \<Rightarrow> Inl err
           | Inr vd \<Rightarrow>
               (let d = event_duration s - 1
                in if d \<le> 0
                   then Inr (s\<lparr>vdata := event_reset r (name e) vd, event_duration := d,
                               current_event := None\<rparr>)
                   else Inr (s\<lparr>vdata := vd, event_duration := d\<rparr>))))"

subsection \<open>The state update of one tick\<close>

text \<open>Lines 362 to 370: the pull of the speed towards the mode's average speed.\<close>

definition tendance_vitesse :: "mode_params \<Rightarrow> vehicle_data \<Rightarrow> real" where
  "tendance_vitesse mp vd =
     (if speed vd < vitesse_moyenne mp - 5 then
        min (acceleration_max mp * 0.5) ((vitesse_moyenne mp - speed vd) * 0.1)
      else if speed vd > vitesse_moyenne mp + 5 then
        max (- acceleration_max mp * 0.3) ((vitesse_moyenne mp - speed vd) * 0.1)
      else (vitesse_moyenne mp - speed vd) * 0.05)"

text \<open>Lines 373 to 380.\<close>

definition speed_change :: "mode_params \<Rightarrow> draws \<Rightarrow> vehicle_data \<Rightarrow> real" where
  "speed_change mp r vd =
     (let road_effect = - road_grade vd * 0.2;
          wind_effect = - wind_speed vd * 0.05
      in (tendance_vitesse mp vd + road_effect + wind_effect) * temps_factor mp + noise r)"

text \<open>Lines 383 to 393: acceleration, speed and distance.\<close>

definition update_kinematics :: "mode_params \<Rightarrow> real \<Rightarrow> draws \<Rightarrow> vehicle_data \<Rightarrow> vehicle_data" where
  "update_kinematics mp elapsed_time r vd =
     (let acc = min (acceleration_max mp)
                  (max (- acceleration_max mp)
                     (speed_change mp r vd / (3.6 * max 0.1 elapsed_time)));
          new_speed = speed vd + acc * 3.6 * elapsed_time;
          spd = max 0 (min (vitesse_max mp) new_speed);
          distance_km = (spd * elapsed_time * temps_factor mp) / 3600
      in vd\<lparr>acceleration := acc, speed := spd,
            total_distance := total_distance vd + distance_km * 1000\<rparr>)"

text \<open>Lines 397 to 421: the instantaneous power in kW.\<close>

definition instant_power :: "mode_params \<Rightarrow> vehicle_data \<Rightarrow> real" where
  "instant_power mp vd =
     (let aero_resistance = 0.5 * 1.225 * 0.30 * 2.5 * (speed vd / 3.6)\<^sup>2;
          rolling_resistance = 0.013 * vehicle_weight vd * 9.81;
          grade_resistance = vehicle_weight vd * 9.81 * sin (arctan (road_grade vd / 100));
          road_power = (aero_resistance + rolling_resistance + grade_resistance) * (speed vd / 3.6);
          accel_power = max 0 (vehicle_weight vd * acceleration vd * (speed vd / 3.6));
          motor_efficiency = 0.9 - 0.1 * (temperature vd - 25) / 60;
          total_power = (road_power + accel_power) / 1000 / max 0.7 motor_efficiency;
          total_power =
            (if acceleration vd < - 0.2 then
               total_power + min 0 (vehicle_weight vd * acceleration vd * (speed vd / 3.6)
                                      * regeneration mp / 1000)
             else total_power);
          idle_power = (if temperature vd < 15 then 0.8 else 0.5)
      in max 0 (total_power + idle_power))"

text \<open>
  Lines 421 to 441: consumption per 100 km, battery and remaining range. Python raises
  \<open>ZeroDivisionError\<close> on a float division by zero; the two divisors that are not
  constants are tested.
\<close>

definition update_energy :: "mode_params \<Rightarrow> real \<Rightarrow> vehicle_data \<Rightarrow> error + vehicle_data" where
  "update_energy mp elapsed_time vd =
     (let vd1 = vd\<lparr>instant_consumption := instant_power mp vd\<rparr>;
          vd2 = (if speed vd1 > 5
                 then vd1\<lparr>energy_consumption := instant_consumption vd1 / speed vd1 * 100\<rparr>
                 else vd1\<lparr>energy_consumption := conso_base mp\<rparr>);
          energy_used = (instant_consumption vd2 * elapsed_time) / 3600
      in if battery_capacity vd2 = 0 then Inl ZeroDivisionError
         else
           (let battery_percentage_used = (energy_used / battery_capacity vd2) * 100;
                vd3 = vd2\<lparr>battery_level := max 0 (battery_level vd2 - battery_percentage_used)\<rparr>;
                avg_consumption = conso_base mp * (1 + 0.1 * (speed vd3 / vitesse_moyenne mp - 1));
                remaining_energy = (battery_level vd3 / 100) * battery_capacity vd3
            in if avg_consumption = 0 then Inl ZeroDivisionError
               else Inr (vd3\<lparr>autonomy_remaining := (remaining_energy / avg_consumption) * 100\<rparr>)))"

text \<open>Lines 444 to 456: motor temperature, then motor load.\<close>

definition update_thermal :: "mode_params \<Rightarrow> vehicle_data \<Rightarrow> vehicle_data" where
  "update_thermal mp vd =
     (let temp_ambient = 20;
          temp_target = temp_ambient + (motor_load vd / 100) * 60;
          temp_delta = (temp_target - temperature vd) * 0.1 * temps_factor mp;
          vd1 = vd\<lparr>temperature := max temp_ambient (min 90 (temperature vd + temp_delta))\<rparr>;
          base_load = 20;
          speed_load = 40 * (speed vd1 / vitesse_max mp);
          accel_load = 40 * \<bar>acceleration vd1 / acceleration_max mp\<bar>
      in vd1\<lparr>motor_load := min 100 (max 0 (base_load + speed_load + accel_load))\<rparr>)"

text \<open>Lines 459 to 464: the occasional loss of tire pressure.\<close>

definition update_tire :: "mode_params \<Rightarrow> real \<Rightarrow> draws \<Rightarrow> vehicle_data \<Rightarrow> vehicle_data" where
  "update_tire mp elapsed_time r vd =
     (if tire_random1 r < 0.005 * temps_factor mp then
        (let pressure_loss = 0.001 * elapsed_time;
             pressure_loss = (if tire_random2 r < 0.1 then pressure_loss + tire_uniform r
                              else pressure_loss)
         in vd\<lparr>tire_pressure := max 1.5 (tire_pressure vd - pressure_loss)\<rparr>)
      else vd)"

text \<open>
  Lines 355 to 359 of \<open>_update_vehicle_state\<close>: a new event may start, then the
  active event, if there is one, is applied.
\<close>

definition events_stage :: "draws \<Rightarrow> simulator \<Rightarrow> error + simulator" where
  "events_stage r s =
     (let s1 = handle_random_events r s
      in if current_event s1 \<noteq> None then apply_event_effects r s1 else Inr s1)"

text \<open>
  \<open>_update_vehicle_state(elapsed_time)\<close>: the mode's parameters are read first, then
  the events are handled, then the four updates above run in the order of the source.
\<close>

definition update_vehicle_state :: "real \<Rightarrow> draws \<Rightarrow> simulator \<Rightarrow> error + simulator" where
  "update_vehicle_state elapsed_time r s =
     (case MODE_PARAMS (current_mode s) of
        None \<Rightarrow> Inl KeyError
      | Some mp \<Rightarrow>
          (case events_stage r s of
             Inl err \<Rightarrow> Inl err
           | Inr s2 \<Rightarrow>
               (case update_energy mp elapsed_time
                       (update_kinematics mp elapsed_time r (vdata s2)) of
                  Inl err \<Rightarrow> Inl err
                | Inr vd \<Rightarrow>
                    Inr (s2\<lparr>vdata := update_tire mp elapsed_time r (update_thermal mp vd)\<rparr>))))"

text \<open>The dictionary \<open>mode_factor\<close> of \<open>_calculate_energy_consumption\<close>.\<close>

definition mode_factor :: "string \<rightharpoonup> real" where
  "mode_factor = map_of
     [(MODE_URBAIN, 1.0), (MODE_SPORT, 1.5), (MODE_AUTOROUTE, 1.1), (MODE_ECO, 0.8)]"

text \<open>\<open>_calculate_energy_consumption\<close>.\<close>

definition calculate_energy_consumption :: "simulator \<Rightarrow> error + simulator" where
  "calculate_energy_consumption s =
     (case MODE_PARAMS (current_mode s) of
        None \<Rightarrow> Inl KeyError
      | Some mp \<Rightarrow>
          (let vd = vdata s;
               base_consumption = conso_base mp;
               speed_factor = 0.01 * (speed vd)\<^sup>2;
               accel_factor = 2 * \<bar>acceleration vd\<bar>;
               temp_factor = 0.1 * \<bar>temperature vd - 20\<bar>;
               battery_factor = 0.05 * (100 - battery_level vd);
               motor_factor = 0.02 * motor_load vd;
               grade_factor = 0.5 * \<bar>road_grade vd\<bar>;
               wind_factor = 0.2 * \<bar>wind_speed vd\<bar>;
               road_factor = 1 * road_condition vd
           in case mode_factor (current_mode s) of
                None \<Rightarrow> Inl KeyError
              | Some mf \<Rightarrow>
                  Inr (s\<lparr>vdata := vd\<lparr>energy_consumption :=
                         base_consumption * mf + speed_factor + accel_factor + temp_factor +
                         battery_factor + motor_factor + grade_factor + wind_factor +
                         road_factor\<rparr>\<rparr>)))"

subsection \<open>The simulation loop\<close>

text \<open>
  One pass of the body of \<open>_simulation_loop\<close> up to the notification of the callbacks:
  \<open>_update_vehicle_state(elapsed)\<close>, then \<open>_calculate_energy_consumption()\<close>.
\<close>

definition tick :: "real \<Rightarrow> draws \<Rightarrow> simulator \<Rightarrow> error + simulator" where
  "tick elapsed r s =
     (case update_vehicle_state elapsed r s of
        Inl err \<Rightarrow> Inl err
      | Inr s1 \<Rightarrow> calculate_energy_consumption s1)"

text \<open>
  \<open>get_current_data\<close>: a copy of the vehicle data with the key \<open>timestamp\<close> added;
  \<open>now\<close> is the text \<open>datetime.now().isoformat()\<close> returns at the call.
\<close>

record snapshot = vehicle_data +
  timestamp :: string

definition get_current_data :: "string \<Rightarrow> simulator \<Rightarrow> snapshot" where
  "get_current_data now s = vehicle_data.extend (vdata s) (snapshot.fields now)"

text \<open>
  \<open>_simulation_loop\<close>, one list entry per pass of the \<open>while\<close> loop: the elapsed
  time measured, the draws of the pass and the clock text read for the snapshot. The
  result is the list of snapshots handed to the callbacks. An exception ends the loop
  (the handler logs it and clears \<open>is_running\<close>).
\<close>

fun simulation_loop :: "simulator \<Rightarrow> (real \<times> draws \<times> string) list \<Rightarrow> snapshot list" where
  "simulation_loop s [] = []"
| "simulation_loop s ((elapsed, r, now) # rest) =
     (case tick elapsed r s of
        Inl err \<Rightarrow> []
      | Inr s1 \<Rightarrow> get_current_data now s1 # simulation_loop s1 rest)"

text \<open>The simulator states after each pass of the loop, for properties of the state.\<close>

fun states :: "simulator \<Rightarrow> (real \<times> draws) list \<Rightarrow> simulator list" where
  "states s [] = []"
| "states s ((elapsed, r) # rest) =
     (case tick elapsed r s of
        Inl err \<Rightarrow> []
      | Inr s1 \<Rightarrow> s1 # states s1 rest)"

subsection \<open>Sample inputs\<close>

text \<open>Draws of a pass in which no event starts, the speed noise is zero and the tires keep
  their pressure.\<close>

definition quiet_draws :: draws where
  "quiet_draws = \<lparr>ev_random = 0.5, ev_choice = 0, wind_draw = 10, grade_draw = 5,
     wind_reset = 1, grade_reset = -1, noise = 0, tire_random1 = 0.5, tire_random2 = 0.5,
     tire_uniform = 0.01\<rparr>"

text \<open>The simulator after \<open>change_mode("sport")\<close> on a new instance.\<close>

definition sport_sim :: simulator where
  "sport_sim = snd (change_mode ''sport'' init)"

text \<open>A new instance in which the given event is active with the given number of passes
  left.\<close>

definition with_event :: "event \<Rightarrow> int \<Rightarrow> simulator" where
  "with_event e n = init\<lparr>current_event := Some e, event_duration := n\<rparr>"

definition clear_road :: simulator where
  "clear_road = with_event \<lparr>name = ''route_degagee'', duration = 40\<rparr> 40"

definition cross_wind_ending :: simulator where
  "cross_wind_ending = with_event \<lparr>name = ''vent_lateral'', duration = 30\<rparr> 1"

text \<open>A vehicle at 20 km/h at a toll booth.\<close>

definition toll_booth :: simulator where
  "toll_booth = (with_event \<lparr>name = ''peage'', duration = 10\<rparr> 10)
     \<lparr>vdata := (vdata init)\<lparr>speed := 20\<rparr>\<rparr>"

section \<open>Properties\<close>

subsection \<open>The mode table\<close>

lemma MODE_PARAMS_cases:
  assumes "MODE_PARAMS k = Some mp"
  shows "(k = ''urbain'' \<and> mp = \<lparr>vitesse_max = 50, vitesse_moyenne = 30, acceleration_max = 2.0,
        variation_vitesse = 15, conso_base = 16, temps_factor = 1.0, regeneration = 0.4\<rparr>)
    \<or> (k = ''sport'' \<and> mp = \<lparr>vitesse_max = 150, vitesse_moyenne = 90, acceleration_max = 4.0,
        variation_vitesse = 25, conso_base = 25, temps_factor = 1.5, regeneration = 0.2\<rparr>)
    \<or> (k = ''autoroute'' \<and> mp = \<lparr>vitesse_max = 130, vitesse_moyenne = 110, acceleration_max = 1.5,
        variation_vitesse = 10, conso_base = 21, temps_factor = 1.2, regeneration = 0.1\<rparr>)
    \<or> (k = ''eco'' \<and> mp = \<lparr>vitesse_max = 90, vitesse_moyenne = 60, acceleration_max = 1.0,
        variation_vitesse = 5, conso_base = 13, temps_factor = 0.8, regeneration = 0.5\<rparr>)"
  using assms
  by (auto simp: MODE_PARAMS_def MODE_URBAIN_def MODE_SPORT_def MODE_AUTOROUTE_def MODE_ECO_def
      split: if_splits)

lemma MODE_PARAMS_pos:
  assumes "MODE_PARAMS k = Some mp"
  shows "0 < vitesse_max mp" "0 < vitesse_moyenne mp" "0 < acceleration_max mp"
    "0 < temps_factor mp" "0 < conso_base mp"
  using MODE_PARAMS_cases [OF assms] by auto

lemma mode_factor_defined:
  assumes "MODE_PARAMS k = Some mp"
  shows "mode_factor k \<noteq> None"
  using MODE_PARAMS_cases [OF assms]
  by (elim disjE conjE)
    (simp_all add: mode_factor_def MODE_URBAIN_def MODE_SPORT_def MODE_AUTOROUTE_def MODE_ECO_def)

lemma MODE_PARAMS_init: "MODE_PARAMS (current_mode init) \<noteq> None"
  by (simp add: init_def MODE_PARAMS_def MODE_URBAIN_def)

subsection \<open>What each step of the tick leaves unchanged\<close>

lemma handle_random_events_frame:
  "current_mode (handle_random_events r s) = current_mode s"
  "vdata (handle_random_events r s) = vdata s"
  by (simp_all add: handle_random_events_def Let_def)

lemma event_effect_total:
  assumes "MODE_PARAMS mode = Some mp"
  shows "\<exists>vd'. event_effect r mode ev vd = Inr vd'"
  using assms by (simp add: event_effect_def)

lemma event_effect_frame:
  assumes "event_effect r mode ev vd = Inr vd'"
  shows "battery_level vd' = battery_level vd" "battery_capacity vd' = battery_capacity vd"
    "total_distance vd' = total_distance vd" "temperature vd' = temperature vd"
    "vehicle_weight vd' = vehicle_weight vd" "motor_load vd' = motor_load vd"
  using assms by (auto simp: event_effect_def split: if_splits option.splits)

lemma event_reset_frame:
  "battery_level (event_reset r ev vd) = battery_level vd"
  "battery_capacity (event_reset r ev vd) = battery_capacity vd"
  "total_distance (event_reset r ev vd) = total_distance vd"
  "temperature (event_reset r ev vd) = temperature vd"
  "speed (event_reset r ev vd) = speed vd"
  by (simp_all add: event_reset_def)

lemma apply_event_effects_frame:
  assumes "apply_event_effects r s = Inr s'"
  shows "current_mode s' = current_mode s"
    "battery_level (vdata s') = battery_level (vdata s)"
    "battery_capacity (vdata s') = battery_capacity (vdata s)"
    "total_distance (vdata s') = total_distance (vdata s)"
  using assms
  by (auto simp: apply_event_effects_def Let_def event_reset_frame
      split: option.splits sum.splits if_splits dest: event_effect_frame)

lemma apply_event_effects_total:
  assumes "MODE_PARAMS (current_mode s) = Some mp" "current_event s \<noteq> None"
  shows "\<exists>s'. apply_event_effects r s = Inr s'"
proof -
  from assms(2) obtain e where e: "current_event s = Some e" by auto
  from event_effect_total [OF assms(1)] obtain vd
    where "event_effect r (current_mode s) (name e) (vdata s) = Inr vd" by blast
  with e show ?thesis by (simp add: apply_event_effects_def Let_def)
qed

lemma events_stage_frame:
  assumes "events_stage r s = Inr s2"
  shows "current_mode s2 = current_mode s"
    "battery_level (vdata s2) = battery_level (vdata s)"
    "battery_capacity (vdata s2) = battery_capacity (vdata s)"
    "total_distance (vdata s2) = total_distance (vdata s)"
  using assms
  by (auto simp: events_stage_def Let_def handle_random_events_frame split: if_splits
      dest: apply_event_effects_frame)

lemma events_stage_total:
  assumes "MODE_PARAMS (current_mode s) = Some mp"
  shows "\<exists>s2. events_stage r s = Inr s2"
proof (cases "current_event (handle_random_events r s) = None")
  case True
  then show ?thesis by (simp add: events_stage_def Let_def)
next
  case False
  have "MODE_PARAMS (current_mode (handle_random_events r s)) = Some mp"
    using assms by (simp add: handle_random_events_frame)
  from apply_event_effects_total [OF this False] False
  show ?thesis by (simp add: events_stage_def Let_def)
qed

lemma update_kinematics_speed:
  assumes "0 \<le> vitesse_max mp"
  shows "0 \<le> speed (update_kinematics mp dt r vd)"
    "speed (update_kinematics mp dt r vd) \<le> vitesse_max mp"
  using assms by (simp_all add: update_kinematics_def Let_def)

lemma update_kinematics_frame:
  "battery_level (update_kinematics mp dt r vd) = battery_level vd"
  "battery_capacity (update_kinematics mp dt r vd) = battery_capacity vd"
  "temperature (update_kinematics mp dt r vd) = temperature vd"
  "motor_load (update_kinematics mp dt r vd) = motor_load vd"
  "road_grade (update_kinematics mp dt r vd) = road_grade vd"
  "wind_speed (update_kinematics mp dt r vd) = wind_speed vd"
  "road_condition (update_kinematics mp dt r vd) = road_condition vd"
  by (simp_all add: update_kinematics_def Let_def)

lemma update_energy_frame:
  assumes "update_energy mp dt vd = Inr vd'"
  shows "speed vd' = speed vd" "acceleration vd' = acceleration vd"
    "temperature vd' = temperature vd" "total_distance vd' = total_distance vd"
    "battery_capacity vd' = battery_capacity vd" "motor_load vd' = motor_load vd"
    "road_grade vd' = road_grade vd" "wind_speed vd' = wind_speed vd"
    "road_condition vd' = road_condition vd"
  using assms by (auto simp: update_energy_def Let_def split: if_splits)

lemma positive_consumption_factor: "0 \<le> x \<Longrightarrow> 0 < 1 + 0.1 * (x - 1)" for x :: real
  by argo

lemma update_energy_total:
  assumes "battery_capacity vd \<noteq> 0" "0 \<le> speed vd" "0 < vitesse_moyenne mp" "0 < conso_base mp"
  shows "\<exists>vd'. update_energy mp dt vd = Inr vd'"
proof -
  have "0 \<le> speed vd / vitesse_moyenne mp" using assms by simp
  then have "0 < 1 + 0.1 * (speed vd / vitesse_moyenne mp - 1)"
    by (rule positive_consumption_factor)
  then have "conso_base mp * (1 + 0.1 * (speed vd / vitesse_moyenne mp - 1)) \<noteq> 0"
    using assms(4) by simp
  then show ?thesis using assms(1) by (simp add: update_energy_def Let_def)
qed

lemma update_thermal_frame:
  "speed (update_thermal mp vd) = speed vd"
  "acceleration (update_thermal mp vd) = acceleration vd"
  "battery_level (update_thermal mp vd) = battery_level vd"
  "battery_capacity (update_thermal mp vd) = battery_capacity vd"
  "total_distance (update_thermal mp vd) = total_distance vd"
  "road_grade (update_thermal mp vd) = road_grade vd"
  "wind_speed (update_thermal mp vd) = wind_speed vd"
  "road_condition (update_thermal mp vd) = road_condition vd"
  by (simp_all add: update_thermal_def Let_def)

lemma update_thermal_temperature:
  "20 \<le> temperature (update_thermal mp vd)" "temperature (update_thermal mp vd) \<le> 90"
  by (simp_all add: update_thermal_def Let_def)

lemma update_tire_frame:
  "speed (update_tire mp dt r vd) = speed vd"
  "acceleration (update_tire mp dt r vd) = acceleration vd"
  "temperature (update_tire mp dt r vd) = temperature vd"
  "battery_level (update_tire mp dt r vd) = battery_level vd"
  "battery_capacity (update_tire mp dt r vd) = battery_capacity vd"
  "total_distance (update_tire mp dt r vd) = total_distance vd"
  "road_grade (update_tire mp dt r vd) = road_grade vd"
  "wind_speed (update_tire mp dt r vd) = wind_speed vd"
  "road_condition (update_tire mp dt r vd) = road_condition vd"
  by (simp_all add: update_tire_def Let_def)

lemma calculate_energy_consumption_frame:
  assumes "calculate_energy_consumption s = Inr s'"
  shows "current_mode s' = current_mode s" "current_event s' = current_event s"
    "event_duration s' = event_duration s"
    "speed (vdata s') = speed (vdata s)" "acceleration (vdata s') = acceleration (vdata s)"
    "temperature (vdata s') = temperature (vdata s)"
    "battery_level (vdata s') = battery_level (vdata s)"
    "battery_capacity (vdata s') = battery_capacity (vdata s)"
    "total_distance (vdata s') = total_distance (vdata s)"
    "road_grade (vdata s') = road_grade (vdata s)" "wind_speed (vdata s') = wind_speed (vdata s)"
    "road_condition (vdata s') = road_condition (vdata s)"
  using assms by (auto simp: calculate_energy_consumption_def Let_def split: option.splits)

lemma calculate_energy_consumption_total:
  assumes "MODE_PARAMS (current_mode s) = Some mp"
  shows "\<exists>s'. calculate_energy_consumption s = Inr s'"
  using assms mode_factor_defined [OF assms]
  by (auto simp: calculate_energy_consumption_def Let_def)

subsection \<open>The tick returns, and how its result is built\<close>

lemma update_vehicle_state_Inr:
  assumes "update_vehicle_state dt r s = Inr s'"
  obtains mp s2 vd where
    "MODE_PARAMS (current_mode s) = Some mp"
    "events_stage r s = Inr s2"
    "update_energy mp dt (update_kinematics mp dt r (vdata s2)) = Inr vd"
    "s' = s2\<lparr>vdata := update_tire mp dt r (update_thermal mp vd)\<rparr>"
  using assms
  by (auto simp: update_vehicle_state_def split: option.splits sum.splits)

lemma update_vehicle_state_total:
  assumes mp: "MODE_PARAMS (current_mode s) = Some mp"
    and cap: "battery_capacity (vdata s) \<noteq> 0"
  shows "\<exists>s'. update_vehicle_state dt r s = Inr s'"
proof -
  from events_stage_total [OF mp] obtain s2 where s2: "events_stage r s = Inr s2" by blast
  have cap2: "battery_capacity (vdata s2) \<noteq> 0"
    using cap events_stage_frame(3) [OF s2] by simp
  let ?vd = "update_kinematics mp dt r (vdata s2)"
  have "\<exists>vd'. update_energy mp dt ?vd = Inr vd'"
    using cap2 MODE_PARAMS_pos [OF mp]
    by (intro update_energy_total) (simp_all add: update_kinematics_frame update_kinematics_speed)
  then obtain vd' where "update_energy mp dt ?vd = Inr vd'" ..
  then show ?thesis
    using mp s2 by (simp add: update_vehicle_state_def)
qed

lemma tick_Inr:
  assumes "tick dt r s = Inr s'"
  obtains s1 where "update_vehicle_state dt r s = Inr s1" "calculate_energy_consumption s1 = Inr s'"
  using assms by (auto simp: tick_def split: sum.splits)

lemma tick_total:
  assumes mp: "MODE_PARAMS (current_mode s) = Some mp"
    and cap: "battery_capacity (vdata s) \<noteq> 0"
  shows "\<exists>s'. tick dt r s = Inr s'"
proof -
  from update_vehicle_state_total [OF mp cap] obtain s1
    where s1: "update_vehicle_state dt r s = Inr s1" by blast
  then have "current_mode s1 = current_mode s"
    by (elim update_vehicle_state_Inr) (simp add: events_stage_frame)
  with mp calculate_energy_consumption_total [of s1 mp] s1
  show ?thesis by (auto simp: tick_def)
qed

lemma tick_current_mode:
  assumes "tick dt r s = Inr s'"
  shows "current_mode s' = current_mode s"
  using assms
  by (elim tick_Inr update_vehicle_state_Inr)
    (simp add: events_stage_frame calculate_energy_consumption_frame)

lemma tick_battery_capacity:
  assumes "tick dt r s = Inr s'"
  shows "battery_capacity (vdata s') = battery_capacity (vdata s)"
  using assms
  by (elim tick_Inr update_vehicle_state_Inr)
    (simp add: events_stage_frame calculate_energy_consumption_frame update_tire_frame
      update_thermal_frame update_energy_frame update_kinematics_frame)

lemma tick_speed:
  assumes "tick dt r s = Inr s'" "MODE_PARAMS (current_mode s) = Some mp"
  shows "0 \<le> speed (vdata s')" "speed (vdata s') \<le> vitesse_max mp"
  using assms MODE_PARAMS_pos(1) [OF assms(2)]
  by (elim tick_Inr update_vehicle_state_Inr;
      simp add: calculate_energy_consumption_frame update_tire_frame update_thermal_frame
        update_energy_frame update_kinematics_speed)+

lemma tick_temperature:
  assumes "tick dt r s = Inr s'"
  shows "20 \<le> temperature (vdata s')" "temperature (vdata s') \<le> 90"
  using assms
  by (elim tick_Inr update_vehicle_state_Inr;
      simp add: calculate_energy_consumption_frame update_tire_frame update_thermal_temperature)+

lemma change_mode_valid:
  assumes "MODE_PARAMS (current_mode s) \<noteq> None"
  shows "MODE_PARAMS (current_mode (snd (change_mode k s))) \<noteq> None"
    "battery_capacity (vdata (snd (change_mode k s))) = battery_capacity (vdata s)"
  using assms by (simp_all add: change_mode_def)

lemma tick_acceleration:
  assumes "tick dt r s = Inr s'" "MODE_PARAMS (current_mode s) = Some mp" "events_stage r s = Inr s2"
  shows "acceleration (vdata s') =
     min (acceleration_max mp) (max (- acceleration_max mp)
       (speed_change mp r (vdata s2) / (3.6 * max 0.1 dt)))"
  using assms
  by (elim tick_Inr update_vehicle_state_Inr)
    (simp add: calculate_energy_consumption_frame update_tire_frame update_thermal_frame
        update_energy_frame update_kinematics_def Let_def)

lemma floored_quotient_bounded:
  fixes x dt :: real
  shows "0.36 \<le> 3.6 * max 0.1 dt" "\<bar>x / (3.6 * max 0.1 dt)\<bar> \<le> \<bar>x\<bar> / 0.36"
proof -
  show d: "0.36 \<le> 3.6 * max 0.1 dt" by simp
  then have pos: "0 < 3.6 * max 0.1 dt" by linarith
  have "\<bar>x / (3.6 * max 0.1 dt)\<bar> = \<bar>x\<bar> / \<bar>3.6 * max 0.1 dt\<bar>" by (rule abs_divide)
  also have "\<dots> = \<bar>x\<bar> / (3.6 * max 0.1 dt)" using pos by (simp only: abs_of_pos)
  also have "\<dots> \<le> \<bar>x\<bar> / 0.36"
    using d by (intro divide_left_mono) simp_all
  finally show "\<bar>x / (3.6 * max 0.1 dt)\<bar> \<le> \<bar>x\<bar> / 0.36" .
qed

lemma events_stage_current_event:
  assumes "events_stage r s = Inr s2" "current_event s = Some e"
  shows "current_event s2 = Some e \<or> current_event s2 = None"
  using assms
  by (auto simp: events_stage_def handle_random_events_def apply_event_effects_def Let_def
      split: if_splits sum.splits)

lemma tick_current_event:
  assumes "tick dt r s = Inr s'" "events_stage r s = Inr s2"
  shows "current_event s' = current_event s2" "event_duration s' = event_duration s2"
  using assms
  by (elim tick_Inr update_vehicle_state_Inr; simp add: calculate_energy_consumption_frame)+

subsection \<open>The end of an event\<close>

lemma apply_event_effects_ending:
  assumes "current_event s = Some e" "event_duration s \<le> 1"
    "event_effect r (current_mode s) (name e) (vdata s) = Inr vd"
  shows "apply_event_effects r s =
    Inr (s\<lparr>vdata := event_reset r (name e) vd, event_duration := event_duration s - 1,
          current_event := None\<rparr>)"
  using assms by (simp add: apply_event_effects_def Let_def)

lemma events_stage_ending:
  assumes ev: "current_event s = Some e" and d: "event_duration s \<le> 1"
    and mp: "MODE_PARAMS (current_mode s) = Some mp"
  shows "\<exists>vd. events_stage r s = Inr (s\<lparr>vdata := event_reset r (name e) vd,
      event_duration := event_duration s - 1, current_event := None\<rparr>)"
proof -
  from event_effect_total [OF mp] obtain vd
    where vd: "event_effect r (current_mode s) (name e) (vdata s) = Inr vd" by blast
  have h: "handle_random_events r s = s" using ev by (simp add: handle_random_events_def)
  show ?thesis
    using apply_event_effects_ending [OF ev d vd] ev
    by (auto simp: events_stage_def h)
qed

lemma tick_environment:
  assumes "tick dt r s = Inr s'" "events_stage r s = Inr s2"
  shows "road_condition (vdata s') = road_condition (vdata s2)"
    "wind_speed (vdata s') = wind_speed (vdata s2)"
    "road_grade (vdata s') = road_grade (vdata s2)"
  using assms
  by (elim tick_Inr update_vehicle_state_Inr;
      simp add: calculate_energy_consumption_frame update_tire_frame update_thermal_frame
        update_energy_frame update_kinematics_frame)+

lemma draws_ok_quiet: "draws_ok quiet_draws"
  by (simp add: draws_ok_def quiet_draws_def)

subsection \<open>Mode keys\<close>

lemma unknown_key: "MODE_PARAMS ''inconnu'' = None"
  by (simp add: MODE_PARAMS_def MODE_URBAIN_def MODE_SPORT_def MODE_AUTOROUTE_def MODE_ECO_def)

lemma sport_sim_mode: "current_mode sport_sim = ''sport''"
  by (simp add: sport_sim_def change_mode_def MODE_PARAMS_def MODE_URBAIN_def MODE_SPORT_def)

subsection \<open>Distance and battery along a run\<close>

lemma instant_power_nonneg: "0 \<le> instant_power mp vd"
  by (simp add: instant_power_def Let_def)

lemma update_kinematics_distance:
  assumes "0 \<le> dt" "0 \<le> vitesse_max mp" "0 \<le> temps_factor mp"
  shows "total_distance vd \<le> total_distance (update_kinematics mp dt r vd)"
proof -
  let ?spd = "speed (update_kinematics mp dt r vd)"
  have "0 \<le> ?spd" using assms(2) by (rule update_kinematics_speed)
  then have "0 \<le> (?spd * dt * temps_factor mp) / 3600 * 1000"
    using assms by simp
  moreover have "total_distance (update_kinematics mp dt r vd) =
      total_distance vd + (?spd * dt * temps_factor mp) / 3600 * 1000"
    by (simp add: update_kinematics_def Let_def)
  ultimately show ?thesis by linarith
qed

lemma update_energy_battery:
  assumes e: "update_energy mp dt vd = Inr vd'" and dt: "0 \<le> dt"
    and cap: "0 < battery_capacity vd" and b: "0 \<le> battery_level vd"
  shows "battery_level vd' \<le> battery_level vd" "0 \<le> battery_level vd'"
proof -
  let ?used = "(instant_power mp vd * dt / 3600 / battery_capacity vd) * 100"
  have u: "0 \<le> ?used"
    using instant_power_nonneg [of mp vd] dt cap by simp
  have eq: "battery_level vd' = max 0 (battery_level vd - ?used)"
    using e by (auto simp: update_energy_def Let_def split: if_splits)
  show "battery_level vd' \<le> battery_level vd" using u b unfolding eq by simp
  show "0 \<le> battery_level vd'" unfolding eq by simp
qed

lemma tick_monotone:
  assumes t: "tick dt r s = Inr s'" and dt: "0 \<le> dt"
    and cap: "0 < battery_capacity (vdata s)" and b: "0 \<le> battery_level (vdata s)"
  shows "total_distance (vdata s) \<le> total_distance (vdata s')"
    "battery_level (vdata s') \<le> battery_level (vdata s)"
    "0 \<le> battery_level (vdata s')"
proof -
  from t obtain s1 where s1: "update_vehicle_state dt r s = Inr s1"
    and c: "calculate_energy_consumption s1 = Inr s'" by (rule tick_Inr)
  from s1 obtain mp s2 vd where mp: "MODE_PARAMS (current_mode s) = Some mp"
    and s2: "events_stage r s = Inr s2"
    and vd: "update_energy mp dt (update_kinematics mp dt r (vdata s2)) = Inr vd"
    and eq: "s1 = s2\<lparr>vdata := update_tire mp dt r (update_thermal mp vd)\<rparr>"
    by (rule update_vehicle_state_Inr)
  note pos = MODE_PARAMS_pos [OF mp]
  let ?k = "update_kinematics mp dt r (vdata s2)"
  have td: "total_distance (vdata s') = total_distance ?k"
    using c eq vd
    by (simp add: calculate_energy_consumption_frame update_tire_frame update_thermal_frame
        update_energy_frame)
  have bl: "battery_level (vdata s') = battery_level vd"
    using c eq
    by (simp add: calculate_energy_consumption_frame update_tire_frame update_thermal_frame)
  have "total_distance (vdata s2) \<le> total_distance ?k"
    using dt pos by (intro update_kinematics_distance) simp_all
  then show "total_distance (vdata s) \<le> total_distance (vdata s')"
    using td events_stage_frame(4) [OF s2] by simp
  have capk: "0 < battery_capacity ?k"
    using cap events_stage_frame(3) [OF s2] by (simp add: update_kinematics_frame)
  have bk: "0 \<le> battery_level ?k" "battery_level ?k = battery_level (vdata s)"
    using b events_stage_frame(2) [OF s2] by (simp_all add: update_kinematics_frame)
  from update_energy_battery [OF vd dt capk bk(1)] bk(2) bl
  show "battery_level (vdata s') \<le> battery_level (vdata s)" "0 \<le> battery_level (vdata s')"
    by simp_all
qed

lemma states_monotone:
  assumes "MODE_PARAMS (current_mode s) \<noteq> None" "0 < battery_capacity (vdata s)"
    "0 \<le> battery_level (vdata s)" "\<forall>(dt, r) \<in> set ins. 0 \<le> dt"
  shows "length (states s ins) = length ins \<and>
     (\<forall>s' \<in> set (states s ins).
        total_distance (vdata s) \<le> total_distance (vdata s') \<and>
        battery_level (vdata s') \<le> battery_level (vdata s) \<and> 0 \<le> battery_level (vdata s')) \<and>
     sorted (map (\<lambda>s'. total_distance (vdata s')) (s # states s ins)) \<and>
     sorted (rev (map (\<lambda>s'. battery_level (vdata s')) (s # states s ins)))"
  using assms
proof (induction ins arbitrary: s)
  case Nil
  then show ?case by simp
next
  case (Cons a ins)
  obtain dt r where a: "a = (dt, r)" by (cases a)
  have dt: "0 \<le> dt" and rest: "\<forall>(dt, r) \<in> set ins. 0 \<le> dt"
    using Cons.prems(4) a by auto
  from Cons.prems(1) obtain mp where mp: "MODE_PARAMS (current_mode s) = Some mp" by auto
  have cap0: "battery_capacity (vdata s) \<noteq> 0" using Cons.prems(2) by simp
  from tick_total [OF mp cap0] obtain s1 where s1: "tick dt r s = Inr s1" by blast
  note m = tick_monotone [OF s1 dt Cons.prems(2,3)]
  have inv: "MODE_PARAMS (current_mode s1) \<noteq> None" "0 < battery_capacity (vdata s1)"
    using mp Cons.prems(2) tick_current_mode [OF s1] tick_battery_capacity [OF s1] by simp_all
  note IH = Cons.IH [OF inv m(3) rest]
  have st: "states s (a # ins) = s1 # states s1 ins" using s1 a by simp
  have all: "\<forall>s' \<in> set (s1 # states s1 ins).
        total_distance (vdata s) \<le> total_distance (vdata s') \<and>
        battery_level (vdata s') \<le> battery_level (vdata s) \<and> 0 \<le> battery_level (vdata s')"
    using IH m by fastforce
  have "sorted (map (\<lambda>s'. total_distance (vdata s')) (s # s1 # states s1 ins))"
    using IH all by (simp del: set_simps) (use all in auto)
  moreover have "sorted (rev (map (\<lambda>s'. battery_level (vdata s')) (s # s1 # states s1 ins)))"
    using IH all by (auto simp: sorted_append)
  ultimately show ?case using IH all unfolding st by simp
qed

subsection \<open>The first tick of a new simulator\<close>

lemma MODE_PARAMS_urbain: "MODE_PARAMS ''urbain'' = Some \<lparr>vitesse_max = 50, vitesse_moyenne = 30, acceleration_max = 2.0,
        variation_vitesse = 15, conso_base = 16, temps_factor = 1.0, regeneration = 0.4\<rparr>"
  by (simp add: MODE_PARAMS_def MODE_URBAIN_def)

lemma mode_factor_urbain: "mode_factor ''urbain'' = Some 1.0"
  by (simp add: mode_factor_def MODE_URBAIN_def)

lemma current_mode_init: "current_mode init = ''urbain''"
  by (simp add: init_def MODE_URBAIN_def)

lemma events_stage_init: "events_stage quiet_draws init = Inr init"
  by (simp add: events_stage_def handle_random_events_def init_def quiet_draws_def)

lemma update_kinematics_init:
  "update_kinematics \<lparr>vitesse_max = 50, vitesse_moyenne = 30, acceleration_max = 2.0,
        variation_vitesse = 15, conso_base = 16, temps_factor = 1.0, regeneration = 0.4\<rparr>
     0.2 quiet_draws (vdata init)
   = (vdata init)\<lparr>acceleration := 25/18, speed := 1, total_distance := 1/18\<rparr>"
  by (simp add: update_kinematics_def speed_change_def tendance_vitesse_def Let_def init_def
      quiet_draws_def)

lemma update_energy_consumption_value:
  assumes "update_energy mp dt vd = Inr vd'"
  shows "energy_consumption vd' =
     (if speed vd > 5 then instant_power mp vd / speed vd * 100 else conso_base mp)"
  using assms by (auto simp: update_energy_def Let_def split: if_splits)

lemma update_thermal_tire_energy_consumption:
  "energy_consumption (update_tire mp dt r (update_thermal mp vd)) = energy_consumption vd"
  by (simp add: update_tire_def update_thermal_def Let_def)

lemma calculate_energy_consumption_value:
  assumes "calculate_energy_consumption s = Inr s'"
    "MODE_PARAMS (current_mode s) = Some mp" "mode_factor (current_mode s) = Some mf"
  shows "energy_consumption (vdata s') =
     conso_base mp * mf + 0.01 * (speed (vdata s))\<^sup>2 + 2 * \<bar>acceleration (vdata s)\<bar> +
     0.1 * \<bar>temperature (vdata s) - 20\<bar> + 0.05 * (100 - battery_level (vdata s)) +
     0.02 * motor_load (vdata s) + 0.5 * \<bar>road_grade (vdata s)\<bar> +
     0.2 * \<bar>wind_speed (vdata s)\<bar> + 1 * road_condition (vdata s)"
  using assms by (auto simp: calculate_energy_consumption_def Let_def)

lemma update_thermal_motor_load: "0 \<le> motor_load (update_thermal mp vd)"
  by (simp add: update_thermal_def Let_def)

lemma update_tire_motor_load: "motor_load (update_tire mp dt r vd) = motor_load vd"
  by (simp add: update_tire_def Let_def)

lemma first_tick:
  obtains s1 s' vd where
    "update_vehicle_state 0.2 quiet_draws init = Inr s1"
    "tick 0.2 quiet_draws init = Inr s'"
    "calculate_energy_consumption s1 = Inr s'"
    "update_energy \<lparr>vitesse_max = 50, vitesse_moyenne = 30, acceleration_max = 2.0,
        variation_vitesse = 15, conso_base = 16, temps_factor = 1.0, regeneration = 0.4\<rparr> 0.2
       ((vdata init)\<lparr>acceleration := 25/18, speed := 1, total_distance := 1/18\<rparr>) = Inr vd"
    "s1 = init\<lparr>vdata := update_tire \<lparr>vitesse_max = 50, vitesse_moyenne = 30, acceleration_max = 2.0,
        variation_vitesse = 15, conso_base = 16, temps_factor = 1.0, regeneration = 0.4\<rparr> 0.2 quiet_draws
       (update_thermal \<lparr>vitesse_max = 50, vitesse_moyenne = 30, acceleration_max = 2.0,
        variation_vitesse = 15, conso_base = 16, temps_factor = 1.0, regeneration = 0.4\<rparr> vd)\<rparr>"
proof -
  have mp: "MODE_PARAMS (current_mode init) = Some \<lparr>vitesse_max = 50, vitesse_moyenne = 30, acceleration_max = 2.0,
        variation_vitesse = 15, conso_base = 16, temps_factor = 1.0, regeneration = 0.4\<rparr>"
    by (simp add: current_mode_init MODE_PARAMS_urbain)
  have cap: "battery_capacity (vdata init) \<noteq> 0" by (simp add: init_def)
  from tick_total [OF mp cap] obtain s' where s': "tick 0.2 quiet_draws init = Inr s'" by blast
  from s' obtain s1 where s1: "update_vehicle_state 0.2 quiet_draws init = Inr s1"
    and c: "calculate_energy_consumption s1 = Inr s'" by (rule tick_Inr)
  from s1 obtain mp' s2 vd where "MODE_PARAMS (current_mode init) = Some mp'"
    "events_stage quiet_draws init = Inr s2"
    "update_energy mp' 0.2 (update_kinematics mp' 0.2 quiet_draws (vdata s2)) = Inr vd"
    "s1 = s2\<lparr>vdata := update_tire mp' 0.2 quiet_draws (update_thermal mp' vd)\<rparr>"
    by (rule update_vehicle_state_Inr)
  with mp events_stage_init update_kinematics_init s1 s' c that show thesis
    by simp
qed

subsection \<open>Snapshots\<close>

lemma truncate_get_current_data: "vehicle_data.truncate (get_current_data now s) = vdata s"
  by (simp add: get_current_data_def vehicle_data.defs snapshot.defs)

lemma timestamp_get_current_data: "timestamp (get_current_data now s) = now"
  by (simp add: get_current_data_def vehicle_data.defs snapshot.defs)

section \<open>The claims\<close>

text \<open>
  C1. After a tick the speed lies between 0 and the maximal speed of the active mode.
  The simulator before the tick is any simulator whose mode is a key of the mode table
  and whose battery capacity is not zero (as \<open>__init__\<close>, \<open>start\<close> and \<open>change_mode\<close>
  keep them), so an event of any kind may be active in it; the second half is the tick
  that follows a call of \<open>change_mode\<close> with any key.
\<close>

theorem speed_within_mode_bounds:
  assumes "MODE_PARAMS (current_mode s) \<noteq> None" and "battery_capacity (vdata s) \<noteq> 0"
  shows "(\<exists>s' mp. tick elapsed r s = Inr s' \<and> MODE_PARAMS (current_mode s') = Some mp \<and>
            0 \<le> speed (vdata s') \<and> speed (vdata s') \<le> vitesse_max mp) \<and>
         (\<exists>s' mp. tick elapsed r (snd (change_mode k s)) = Inr s' \<and>
            MODE_PARAMS (current_mode s') = Some mp \<and>
            0 \<le> speed (vdata s') \<and> speed (vdata s') \<le> vitesse_max mp)"
proof -
  have step: "\<exists>s' mp. tick elapsed r t = Inr s' \<and> MODE_PARAMS (current_mode s') = Some mp \<and>
            0 \<le> speed (vdata s') \<and> speed (vdata s') \<le> vitesse_max mp"
    if "MODE_PARAMS (current_mode t) \<noteq> None" "battery_capacity (vdata t) \<noteq> 0" for t
  proof -
    from that(1) obtain mp where mp: "MODE_PARAMS (current_mode t) = Some mp" by auto
    from tick_total [OF mp that(2)] obtain s' where s': "tick elapsed r t = Inr s'" by blast
    have "MODE_PARAMS (current_mode s') = Some mp"
      using mp tick_current_mode [OF s'] by simp
    with s' tick_speed [OF s' mp] show ?thesis by blast
  qed
  show ?thesis
    using step [of s] step [of "snd (change_mode k s)"] assms change_mode_valid [OF assms(1), of k]
    by simp
qed

theorem speed_within_mode_bounds_witness:
  "MODE_PARAMS (current_mode clear_road) \<noteq> None \<and>
   battery_capacity (vdata clear_road) \<noteq> 0 \<and>
   (\<exists>s' mp. tick 0.2 quiet_draws clear_road = Inr s' \<and>
      MODE_PARAMS (current_mode s') = Some mp \<and>
      0 \<le> speed (vdata s') \<and> speed (vdata s') \<le> vitesse_max mp) \<and>
   (\<exists>s' mp. tick 0.2 quiet_draws (snd (change_mode ''sport'' clear_road)) = Inr s' \<and>
      MODE_PARAMS (current_mode s') = Some mp \<and>
      0 \<le> speed (vdata s') \<and> speed (vdata s') \<le> vitesse_max mp)"
proof -
  have h1: "MODE_PARAMS (current_mode clear_road) \<noteq> None"
    using MODE_PARAMS_init by (simp add: clear_road_def with_event_def)
  have h2: "battery_capacity (vdata clear_road) \<noteq> 0"
    by (simp add: clear_road_def with_event_def init_def)
  from speed_within_mode_bounds [OF h1 h2, of "0.2" quiet_draws "''sport''"] h1 h2
  show ?thesis by blast
qed

text \<open>
  C2. Along any run of ticks with non-negative elapsed times, started from a simulator
  with a valid mode, a positive battery capacity and a battery level between 0 and 100
  (nothing in the class charges the battery), every tick returns, the total distance
  never decreases, the battery level never increases, and the battery level stays
  between 0 and 100.
\<close>

theorem distance_and_battery_monotone:
  assumes "MODE_PARAMS (current_mode s) \<noteq> None" and "0 < battery_capacity (vdata s)"
    and "0 \<le> battery_level (vdata s)" and "battery_level (vdata s) \<le> 100"
    and "\<forall>(dt, r) \<in> set ins. 0 \<le> dt"
  shows "length (states s ins) = length ins \<and>
     sorted (map (\<lambda>s'. total_distance (vdata s')) (s # states s ins)) \<and>
     sorted (rev (map (\<lambda>s'. battery_level (vdata s')) (s # states s ins))) \<and>
     (\<forall>s' \<in> set (states s ins).
        0 \<le> battery_level (vdata s') \<and> battery_level (vdata s') \<le> 100)"
proof -
  note m = states_monotone [OF assms(1,2,3,5)]
  have "\<forall>s' \<in> set (states s ins).
        0 \<le> battery_level (vdata s') \<and> battery_level (vdata s') \<le> 100"
  proof
    fix s' assume "s' \<in> set (states s ins)"
    with m have "battery_level (vdata s') \<le> battery_level (vdata s)"
      "0 \<le> battery_level (vdata s')" by blast+
    with assms(4) show "0 \<le> battery_level (vdata s') \<and> battery_level (vdata s') \<le> 100"
      by simp
  qed
  with m show ?thesis by blast
qed

theorem distance_and_battery_monotone_witness:
  "MODE_PARAMS (current_mode init) \<noteq> None \<and> 0 < battery_capacity (vdata init) \<and>
   0 \<le> battery_level (vdata init) \<and> battery_level (vdata init) \<le> 100 \<and>
   list_all (\<lambda>(dt, r). 0 \<le> dt) [(0.2 :: real, quiet_draws), (0, quiet_draws), (0.3, quiet_draws)] \<and>
   length (states init [(0.2 :: real, quiet_draws), (0, quiet_draws), (0.3, quiet_draws)]) = length [(0.2 :: real, quiet_draws), (0, quiet_draws), (0.3, quiet_draws)] \<and>
   sorted (map (\<lambda>s'. total_distance (vdata s')) (init # states init [(0.2 :: real, quiet_draws), (0, quiet_draws), (0.3, quiet_draws)])) \<and>
   sorted (rev (map (\<lambda>s'. battery_level (vdata s')) (init # states init [(0.2 :: real, quiet_draws), (0, quiet_draws), (0.3, quiet_draws)]))) \<and>
   list_all (\<lambda>s'. 0 \<le> battery_level (vdata s') \<and> battery_level (vdata s') \<le> 100)
     (states init [(0.2 :: real, quiet_draws), (0, quiet_draws), (0.3, quiet_draws)])"
proof -
  have h2: "0 < battery_capacity (vdata init)" by (simp add: init_def)
  have h3: "0 \<le> battery_level (vdata init)" by (simp add: init_def)
  have h4: "battery_level (vdata init) \<le> 100" by (simp add: init_def)
  have h5: "\<forall>(dt, r) \<in> set [(0.2 :: real, quiet_draws), (0, quiet_draws), (0.3, quiet_draws)]. 0 \<le> dt"
    by simp
  from distance_and_battery_monotone [OF MODE_PARAMS_init h2 h3 h4 h5]
    MODE_PARAMS_init h2 h3 h4 h5
  show ?thesis unfolding list_all_iff by blast
qed

text \<open>
  C3. The claim is that the snapshot of a tick carries, as \<open>energy_consumption\<close>, the
  power divided by the speed times 100 above 5 km/h and the base consumption of the
  mode otherwise. \<open>_update_vehicle_state\<close> stores exactly that (lines 424 to 428, under
  the comment that it is the value for display), but the loop then calls
  \<open>_calculate_energy_consumption\<close>, which overwrites the field before the snapshot is
  taken. At the first tick of a new simulator (0.2 s elapsed, no event, no noise) the
  speed is 1 km/h and the base consumption of the urban mode is 16: the state update
  leaves 16 in the field, and the snapshot carries a value above 18.
\<close>

theorem snapshot_energy_consumption_at_first_tick:
  "\<not> isl (tick 0.2 quiet_draws init) \<and>
   speed (vdata (projr (tick 0.2 quiet_draws init))) = 1 \<and>
   MODE_PARAMS (current_mode (projr (tick 0.2 quiet_draws init))) = MODE_PARAMS ''urbain'' \<and>
   conso_base (the (MODE_PARAMS ''urbain'')) = 16 \<and>
   energy_consumption (vdata (projr (update_vehicle_state 0.2 quiet_draws init))) = 16 \<and>
   18 < energy_consumption (vdata (projr (tick 0.2 quiet_draws init)))"
proof -
  let ?mp = "\<lparr>vitesse_max = 50, vitesse_moyenne = 30, acceleration_max = 2.0,
        variation_vitesse = 15, conso_base = 16, temps_factor = 1.0, regeneration = 0.4 :: real\<rparr>"
  obtain s1 s' vd where s1: "update_vehicle_state 0.2 quiet_draws init = Inr s1"
    and s': "tick 0.2 quiet_draws init = Inr s'"
    and c: "calculate_energy_consumption s1 = Inr s'"
    and vd: "update_energy ?mp 0.2
       ((vdata init)\<lparr>acceleration := 25/18, speed := 1, total_distance := 1/18\<rparr>) = Inr vd"
    and eq: "s1 = init\<lparr>vdata := update_tire ?mp 0.2 quiet_draws (update_thermal ?mp vd)\<rparr>"
    by (rule first_tick)
  note fr = update_energy_frame [OF vd]
  have sp: "speed (vdata s1) = 1" and ac: "acceleration (vdata s1) = 25/18"
    using fr by (simp_all add: eq update_tire_frame update_thermal_frame)
  have ec1: "energy_consumption (vdata s1) = 16"
    using update_energy_consumption_value [OF vd]
    by (simp add: eq update_thermal_tire_energy_consumption)
  have bl: "battery_level (vdata s1) \<le> 100"
    using update_energy_battery(1) [OF vd] 
    by (simp add: eq update_tire_frame update_thermal_frame init_def)
  have ml: "0 \<le> motor_load (vdata s1)"
    by (simp add: eq update_tire_motor_load update_thermal_motor_load)
  have env: "road_condition (vdata s1) = 0"
    using fr by (simp add: eq update_tire_frame update_thermal_frame init_def)
  have m1: "current_mode s1 = ''urbain''" by (simp add: eq current_mode_init)
  have ec: "energy_consumption (vdata s') =
     16 * 1.0 + 0.01 * (speed (vdata s1))\<^sup>2 + 2 * \<bar>acceleration (vdata s1)\<bar> +
     0.1 * \<bar>temperature (vdata s1) - 20\<bar> + 0.05 * (100 - battery_level (vdata s1)) +
     0.02 * motor_load (vdata s1) + 0.5 * \<bar>road_grade (vdata s1)\<bar> +
     0.2 * \<bar>wind_speed (vdata s1)\<bar> + 1 * road_condition (vdata s1)"
    using calculate_energy_consumption_value [OF c, of ?mp "1.0"]
    by (simp add: m1 MODE_PARAMS_urbain mode_factor_urbain)
  have lb: "16 + 0.01 + 2 * (25/18) \<le> energy_consumption (vdata s')"
    unfolding ec sp ac env using bl ml by simp
  have "(18::real) < 16 + 0.01 + 2 * (25/18)" by simp
  from this lb have big: "18 < energy_consumption (vdata s')" by (rule less_le_trans)
  have "speed (vdata s') = 1"
    using calculate_energy_consumption_frame(4) [OF c] sp by simp
  moreover have "MODE_PARAMS (current_mode s') = MODE_PARAMS ''urbain''"
    using tick_current_mode [OF s'] by (simp add: current_mode_init)
  ultimately show ?thesis
    using s1 s' ec1 big by (simp add: MODE_PARAMS_urbain)
qed

text \<open>
  C10. After a tick the motor temperature lies between 20 and 90 degrees: the update
  clamps it below at the ambient temperature and above at 90.
\<close>

theorem temperature_between_20_and_90:
  assumes "MODE_PARAMS (current_mode s) \<noteq> None" and "battery_capacity (vdata s) \<noteq> 0"
  shows "\<exists>s'. tick elapsed r s = Inr s' \<and>
           20 \<le> temperature (vdata s') \<and> temperature (vdata s') \<le> 90"
proof -
  from assms(1) obtain mp where mp: "MODE_PARAMS (current_mode s) = Some mp" by auto
  from tick_total [OF mp assms(2)] obtain s' where s': "tick elapsed r s = Inr s'" by blast
  with tick_temperature [OF s'] show ?thesis by blast
qed

theorem temperature_between_20_and_90_witness:
  "MODE_PARAMS (current_mode sport_sim) \<noteq> None \<and> battery_capacity (vdata sport_sim) \<noteq> 0 \<and>
   (\<exists>s'. tick 0.2 quiet_draws sport_sim = Inr s' \<and>
      20 \<le> temperature (vdata s') \<and> temperature (vdata s') \<le> 90)"
proof -
  have h1: "MODE_PARAMS (current_mode sport_sim) \<noteq> None"
    unfolding sport_sim_def by (rule change_mode_valid(1) [OF MODE_PARAMS_init])
  have "battery_capacity (vdata sport_sim) = battery_capacity (vdata init)"
    unfolding sport_sim_def by (rule change_mode_valid(2) [OF MODE_PARAMS_init])
  then have h2: "battery_capacity (vdata sport_sim) \<noteq> 0"
    by (simp add: init_def)
  from temperature_between_20_and_90 [OF h1 h2, of "0.2" quiet_draws] h1 h2
  show ?thesis by blast
qed

text \<open>
  C7. The acceleration a tick stores is the raw speed change divided by
  \<open>3.6 * max(0.1, elapsed)\<close> and clamped to plus or minus the maximal acceleration of
  the mode. The divisor is at least 0.36 for every elapsed time, zero included, so the
  quotient is at most the raw change divided by 0.36 in absolute value. The raw change
  is computed from the vehicle data as the events of the tick leave them.
\<close>

theorem acceleration_floored_and_clamped:
  assumes "MODE_PARAMS (current_mode s) \<noteq> None" and "battery_capacity (vdata s) \<noteq> 0"
  shows "\<exists>s' s2 mp. tick elapsed r s = Inr s' \<and> events_stage r s = Inr s2 \<and>
           MODE_PARAMS (current_mode s') = Some mp \<and>
           acceleration (vdata s') =
             min (acceleration_max mp) (max (- acceleration_max mp)
               (speed_change mp r (vdata s2) / (3.6 * max 0.1 elapsed))) \<and>
           \<bar>speed_change mp r (vdata s2) / (3.6 * max 0.1 elapsed)\<bar>
             \<le> \<bar>speed_change mp r (vdata s2)\<bar> / 0.36 \<and>
           - acceleration_max mp \<le> acceleration (vdata s') \<and>
           acceleration (vdata s') \<le> acceleration_max mp"
proof -
  from assms(1) obtain mp where mp: "MODE_PARAMS (current_mode s) = Some mp" by auto
  from tick_total [OF mp assms(2)] obtain s' where s': "tick elapsed r s = Inr s'" by blast
  from events_stage_total [OF mp] obtain s2 where s2: "events_stage r s = Inr s2" by blast
  have mp': "MODE_PARAMS (current_mode s') = Some mp"
    using mp tick_current_mode [OF s'] by simp
  note acc = tick_acceleration [OF s' mp s2]
  have "- acceleration_max mp \<le> acceleration (vdata s')" "acceleration (vdata s') \<le> acceleration_max mp"
    using MODE_PARAMS_pos(3) [OF mp] unfolding acc by simp_all
  with s' s2 mp' acc floored_quotient_bounded(2) show ?thesis by blast
qed

theorem acceleration_floored_and_clamped_witness:
  "MODE_PARAMS (current_mode init) \<noteq> None \<and> battery_capacity (vdata init) \<noteq> 0 \<and>
   (\<exists>s' s2 mp. tick 0 quiet_draws init = Inr s' \<and> events_stage quiet_draws init = Inr s2 \<and>
           MODE_PARAMS (current_mode s') = Some mp \<and>
           acceleration (vdata s') =
             min (acceleration_max mp) (max (- acceleration_max mp)
               (speed_change mp quiet_draws (vdata s2) / (3.6 * max 0.1 0))) \<and>
           \<bar>speed_change mp quiet_draws (vdata s2) / (3.6 * max 0.1 0)\<bar>
             \<le> \<bar>speed_change mp quiet_draws (vdata s2)\<bar> / 0.36 \<and>
           - acceleration_max mp \<le> acceleration (vdata s') \<and>
           acceleration (vdata s') \<le> acceleration_max mp)"
proof -
  have h2: "battery_capacity (vdata init) \<noteq> 0" by (simp add: init_def)
  from acceleration_floored_and_clamped [OF MODE_PARAMS_init h2, of 0 quiet_draws]
    MODE_PARAMS_init h2
  show ?thesis by blast
qed

text \<open>
  C5. The simulator holds one event at most (the attribute \<open>current_event\<close> is one
  event or \<open>None\<close>). While an event is active \<open>_handle_random_events\<close> changes
  nothing, and after the tick the active event is the same event or none.
\<close>

theorem no_new_event_while_active:
  assumes "current_event s = Some e"
    and "MODE_PARAMS (current_mode s) \<noteq> None" and "battery_capacity (vdata s) \<noteq> 0"
  shows "handle_random_events r s = s \<and>
         (\<exists>s'. tick elapsed r s = Inr s' \<and> (current_event s' = Some e \<or> current_event s' = None))"
proof -
  from assms(2) obtain mp where mp: "MODE_PARAMS (current_mode s) = Some mp" by auto
  from tick_total [OF mp assms(3)] obtain s' where s': "tick elapsed r s = Inr s'" by blast
  from events_stage_total [OF mp] obtain s2 where s2: "events_stage r s = Inr s2" by blast
  have "handle_random_events r s = s"
    using assms(1) by (simp add: handle_random_events_def)
  moreover have "current_event s' = Some e \<or> current_event s' = None"
    using events_stage_current_event [OF s2 assms(1)] tick_current_event(1) [OF s' s2] by simp
  ultimately show ?thesis using s' by blast
qed

theorem no_new_event_while_active_witness:
  "current_event clear_road = Some \<lparr>name = ''route_degagee'', duration = 40\<rparr> \<and>
   MODE_PARAMS (current_mode clear_road) \<noteq> None \<and> battery_capacity (vdata clear_road) \<noteq> 0 \<and>
   handle_random_events (quiet_draws\<lparr>ev_random := 0\<rparr>) clear_road = clear_road \<and>
   (\<exists>s'. tick 0.2 (quiet_draws\<lparr>ev_random := 0\<rparr>) clear_road = Inr s' \<and>
      (current_event s' = Some \<lparr>name = ''route_degagee'', duration = 40\<rparr> \<or> current_event s' = None))"
proof -
  have h1: "current_event clear_road = Some \<lparr>name = ''route_degagee'', duration = 40\<rparr>"
    by (simp add: clear_road_def with_event_def)
  have h2: "MODE_PARAMS (current_mode clear_road) \<noteq> None"
    using MODE_PARAMS_init by (simp add: clear_road_def with_event_def)
  have h3: "battery_capacity (vdata clear_road) \<noteq> 0"
    by (simp add: clear_road_def with_event_def init_def)
  from no_new_event_while_active [OF h1 h2 h3, of "quiet_draws\<lparr>ev_random := 0\<rparr>" "0.2"] h1 h2 h3
  show ?thesis by blast
qed

text \<open>
  C4. In the tick in which the counter of the active event falls to 0 (it is 1 before,
  or less), the event is cleared and the field it perturbed is set anew: the road
  condition to 0 after rain, the wind speed to the draw of \<open>uniform(-2, 2)\<close> after cross
  wind, the road grade to the draw of \<open>uniform(-2, 2)\<close> after a climb; both draws lie
  between -2 and 2.
\<close>

theorem event_end_resets_field:
  assumes "current_event s = Some e" and "event_duration s \<le> 1"
    and "MODE_PARAMS (current_mode s) \<noteq> None" and "battery_capacity (vdata s) \<noteq> 0"
    and "draws_ok r"
  shows "\<exists>s'. tick elapsed r s = Inr s' \<and> current_event s' = None \<and>
           (name e = ''pluie'' \<longrightarrow> road_condition (vdata s') = 0) \<and>
           (name e = ''vent_lateral'' \<longrightarrow>
              wind_speed (vdata s') = wind_reset r \<and>
              - 2 \<le> wind_speed (vdata s') \<and> wind_speed (vdata s') \<le> 2) \<and>
           (name e = ''montee'' \<longrightarrow>
              road_grade (vdata s') = grade_reset r \<and>
              - 2 \<le> road_grade (vdata s') \<and> road_grade (vdata s') \<le> 2)"
proof -
  from assms(3) obtain mp where mp: "MODE_PARAMS (current_mode s) = Some mp" by auto
  from tick_total [OF mp assms(4)] obtain s' where s': "tick elapsed r s = Inr s'" by blast
  from events_stage_ending [OF assms(1,2) mp] obtain vd where
    s2: "events_stage r s = Inr (s\<lparr>vdata := event_reset r (name e) vd,
      event_duration := event_duration s - 1, current_event := None\<rparr>)" by blast
  note env = tick_environment [OF s' s2] tick_current_event(1) [OF s' s2]
  have "current_event s' = None" using env by simp
  moreover have "name e = ''pluie'' \<longrightarrow> road_condition (vdata s') = 0"
    using env by (simp add: event_reset_def)
  moreover have "name e = ''vent_lateral'' \<longrightarrow>
              wind_speed (vdata s') = wind_reset r \<and>
              - 2 \<le> wind_speed (vdata s') \<and> wind_speed (vdata s') \<le> 2"
    using env assms(5) by (simp add: event_reset_def draws_ok_def)
  moreover have "name e = ''montee'' \<longrightarrow>
              road_grade (vdata s') = grade_reset r \<and>
              - 2 \<le> road_grade (vdata s') \<and> road_grade (vdata s') \<le> 2"
    using env assms(5) by (simp add: event_reset_def draws_ok_def)
  ultimately show ?thesis using s' by blast
qed

theorem event_end_resets_field_witness:
  "current_event cross_wind_ending = Some \<lparr>name = ''vent_lateral'', duration = 30\<rparr> \<and>
   event_duration cross_wind_ending \<le> 1 \<and>
   MODE_PARAMS (current_mode cross_wind_ending) \<noteq> None \<and>
   battery_capacity (vdata cross_wind_ending) \<noteq> 0 \<and> draws_ok quiet_draws \<and>
   (\<exists>s'. tick 0.2 quiet_draws cross_wind_ending = Inr s' \<and> current_event s' = None \<and>
      wind_speed (vdata s') = 1 \<and> - 2 \<le> wind_speed (vdata s') \<and> wind_speed (vdata s') \<le> 2)"
proof -
  have h1: "current_event cross_wind_ending = Some \<lparr>name = ''vent_lateral'', duration = 30\<rparr>"
    by (simp add: cross_wind_ending_def with_event_def)
  have h2: "event_duration cross_wind_ending \<le> 1"
    by (simp add: cross_wind_ending_def with_event_def)
  have h3: "MODE_PARAMS (current_mode cross_wind_ending) \<noteq> None"
    using MODE_PARAMS_init by (simp add: cross_wind_ending_def with_event_def)
  have h4: "battery_capacity (vdata cross_wind_ending) \<noteq> 0"
    by (simp add: cross_wind_ending_def with_event_def init_def)
  have w: "wind_reset quiet_draws = 1" by (simp add: quiet_draws_def)
  from event_end_resets_field [OF h1 h2 h3 h4 draws_ok_quiet, of "0.2"] h1 h2 h3 h4 draws_ok_quiet w
  show ?thesis by auto
qed

text \<open>
  C6, as stated, fails: after \<open>change_mode("sport")\<close> an unknown key given to
  \<open>change_mode\<close> or to \<open>start\<close> leaves the mode at sport, not urban.
\<close>

theorem unknown_key_not_urban_counterexample:
  "MODE_PARAMS ''inconnu'' = None \<and>
   current_mode (snd (change_mode ''inconnu'' sport_sim)) = ''sport'' \<and>
   current_mode (start (Some ''inconnu'') sport_sim) = ''sport'' \<and>
   ''sport'' \<noteq> MODE_URBAIN"
  by (simp add: unknown_key sport_sim_mode change_mode_def start_def Let_def MODE_URBAIN_def)

text \<open>
  C6, amended. A key that is not in the mode table leaves the mode and the vehicle data
  as they were: \<open>change_mode\<close> returns \<open>False\<close> and changes nothing, and \<open>start\<close>
  keeps the mode (it only sets the running flag).
\<close>

theorem unknown_key_leaves_mode:
  assumes "MODE_PARAMS k = None"
  shows "change_mode k s = (False, s) \<and>
         current_mode (start (Some k) s) = current_mode s \<and>
         vdata (start (Some k) s) = vdata s"
  using assms by (simp add: change_mode_def start_def Let_def)

theorem unknown_key_leaves_mode_witness:
  "MODE_PARAMS ''inconnu'' = None \<and>
   change_mode ''inconnu'' sport_sim = (False, sport_sim) \<and>
   current_mode (start (Some ''inconnu'') sport_sim) = current_mode sport_sim \<and>
   vdata (start (Some ''inconnu'') sport_sim) = vdata sport_sim"
  using unknown_key_leaves_mode [OF unknown_key, of sport_sim] unknown_key by simp

text \<open>
  C8, as stated, fails: at 20 km/h the red light takes 5 km/h off the speed and the
  toll booth takes 10 km/h off, which is not the smaller decrement.
\<close>

theorem toll_decrement_not_smaller_counterexample:
  "event_effect quiet_draws MODE_URBAIN ''feu_rouge'' ((vdata init)\<lparr>speed := 20\<rparr>)
     = Inr ((vdata init)\<lparr>speed := 15\<rparr>) \<and>
   event_effect quiet_draws MODE_AUTOROUTE ''peage'' ((vdata init)\<lparr>speed := 20\<rparr>)
     = Inr ((vdata init)\<lparr>speed := 10\<rparr>) \<and>
   \<not> ((20 :: real) - 10 < 20 - 15)"
  by (simp add: event_effect_def)

text \<open>
  C8, amended. While it is active the red light subtracts 5 km/h per tick and the toll
  booth subtracts 10 km/h per tick, the larger decrement of the two; both results are
  floored at 0.
\<close>

theorem red_light_and_toll_decrements:
  assumes "current_event s = Some e" and "name e = ''feu_rouge'' \<or> name e = ''peage''"
  shows "\<exists>s'. apply_event_effects r s = Inr s' \<and> 0 \<le> speed (vdata s') \<and>
           speed (vdata s') =
             max 0 (speed (vdata s) - (if name e = ''feu_rouge'' then 5 else 10))"
  using assms
  by (auto simp: apply_event_effects_def event_effect_def event_reset_def Let_def)

theorem red_light_and_toll_decrements_witness:
  "current_event toll_booth = Some \<lparr>name = ''peage'', duration = 10\<rparr> \<and>
   (name \<lparr>name = ''peage'', duration = 10\<rparr> = ''feu_rouge'' \<or>
    name \<lparr>name = ''peage'', duration = 10\<rparr> = ''peage'') \<and>
   (\<exists>s'. apply_event_effects quiet_draws toll_booth = Inr s' \<and> 0 \<le> speed (vdata s') \<and>
      speed (vdata s') = 10)"
proof -
  have h1: "current_event toll_booth = Some \<lparr>name = ''peage'', duration = 10\<rparr>"
    by (simp add: toll_booth_def with_event_def)
  have h2: "name \<lparr>name = ''peage'', duration = 10\<rparr> = ''feu_rouge'' \<or>
    name \<lparr>name = ''peage'', duration = 10\<rparr> = ''peage''" by simp
  have v: "speed (vdata toll_booth) = 20" by (simp add: toll_booth_def with_event_def)
  from red_light_and_toll_decrements [OF h1 h2, of quiet_draws] h1 v
  show ?thesis by simp
qed

end
